theory Spec2Isabelle
  imports Main "HOL-Library.Char_ord" "HOL-Library.List_Lexorder"
begin

section \<open>A Go client for the HashiCorp releases API\<close>

text \<open>
  The package has three source files: the client and its request executor
  (\<^verbatim>\<open>NewClient\<close>, \<^verbatim>\<open>sendRequest\<close>, \<^verbatim>\<open>setJSONHeader\<close>), the release endpoints
  (\<^verbatim>\<open>GetReleases\<close>, \<^verbatim>\<open>GetReleaseMetadata\<close>, \<^verbatim>\<open>handleReleaseOptions\<close>) and the
  product endpoint (\<^verbatim>\<open>GetProducts\<close>).

  Go strings are byte strings, so they are \<^typ>\<open>string\<close> here. Go's \<^verbatim>\<open>int\<close> is
  \<^typ>\<open>int\<close>: the package compares it with a constant and prints it, and does no
  arithmetic on it. A function returning \<^verbatim>\<open>(T, error)\<close> returns \<open>error + T\<close>,
  a function that can panic returns an \<open>outcome\<close>.
\<close>

subsection \<open>Errors, panics\<close>

text \<open>
  An \<^verbatim>\<open>error\<close> value is known by its \<^verbatim>\<open>Error()\<close> text. \<open>errorString\<close> is the
  value made by \<^verbatim>\<open>errors.New\<close> and \<^verbatim>\<open>fmt.Errorf\<close>, and stands for the errors of
  the transport, of \<^verbatim>\<open>net/url\<close> and of the JSON scanner as well.
  \<open>UnmarshalTypeError v t s f\<close> is \<^verbatim>\<open>encoding/json\<close>'s error for a JSON value
  described by \<open>v\<close> met where the Go type \<open>t\<close> is expected, in the field with the
  path \<open>f\<close> of the struct named \<open>s\<close> (both empty at the top level).
\<close>

datatype error = errorString string | UnmarshalTypeError string string string string

fun Error :: "error \<Rightarrow> string" where
  "Error (errorString s) = s"
| "Error (UnmarshalTypeError v t s f) =
     (if s \<noteq> [] \<or> f \<noteq> [] then
        ''json: cannot unmarshal '' @ v @ '' into Go struct field '' @ s @ ''.'' @ f
          @ '' of type '' @ t
      else ''json: cannot unmarshal '' @ v @ '' into Go value of type '' @ t)"

datatype 'a outcome = Panics string | Returns 'a

subsection \<open>strconv.Itoa\<close>

fun digits :: "nat \<Rightarrow> string" where
  "digits n =
     (if n < 10 then [''0123456789'' ! n]
      else digits (n div 10) @ [''0123456789'' ! (n mod 10)])"

declare digits.simps [simp del]

definition Itoa :: "int \<Rightarrow> string" where
  "Itoa i = (if i < 0 then CHR ''-'' # digits (nat (- i)) else digits (nat i))"

subsection \<open>net/url: query escaping and \<^verbatim>\<open>url.Values\<close>\<close>

text \<open>
  \<^verbatim>\<open>url.QueryEscape\<close>: letters, digits and \<^verbatim>\<open>- _ . ~\<close> stay, a space becomes
  \<^verbatim>\<open>+\<close>, every other byte becomes \<^verbatim>\<open>%XX\<close> in upper-case hexadecimal.
\<close>

definition shouldEscape :: "char \<Rightarrow> bool" where
  "shouldEscape c \<longleftrightarrow>
     \<not> ((CHR ''a'' \<le> c \<and> c \<le> CHR ''z'') \<or> (CHR ''A'' \<le> c \<and> c \<le> CHR ''Z'')
        \<or> (CHR ''0'' \<le> c \<and> c \<le> CHR ''9'')
        \<or> c = CHR ''-'' \<or> c = CHR ''_'' \<or> c = CHR ''.'' \<or> c = CHR ''~'')"

definition upperhex :: string where
  "upperhex = ''0123456789ABCDEF''"

fun QueryEscape :: "string \<Rightarrow> string" where
  "QueryEscape [] = []"
| "QueryEscape (c # cs) =
     (if shouldEscape c then
        (if c = CHR '' '' then CHR ''+'' # QueryEscape cs
         else CHR ''%'' # upperhex ! (of_char c div 16) # upperhex ! (of_char c mod 16)
              # QueryEscape cs)
      else c # QueryEscape cs)"

text \<open>
  \<^verbatim>\<open>url.QueryUnescape\<close>: a first pass rejects a \<^verbatim>\<open>%\<close> that is not followed by two
  hexadecimal digits, a second pass decodes \<^verbatim>\<open>%XX\<close> and turns \<^verbatim>\<open>+\<close> into a space.
\<close>

definition ishex :: "char \<Rightarrow> bool" where
  "ishex c \<longleftrightarrow> (CHR ''0'' \<le> c \<and> c \<le> CHR ''9'') \<or> (CHR ''a'' \<le> c \<and> c \<le> CHR ''f'')
     \<or> (CHR ''A'' \<le> c \<and> c \<le> CHR ''F'')"

definition unhex :: "char \<Rightarrow> nat" where
  "unhex c =
     (if CHR ''0'' \<le> c \<and> c \<le> CHR ''9'' then of_char c - of_char CHR ''0''
      else if CHR ''a'' \<le> c \<and> c \<le> CHR ''f'' then of_char c - of_char CHR ''a'' + 10
      else if CHR ''A'' \<le> c \<and> c \<le> CHR ''F'' then of_char c - of_char CHR ''A'' + 10
      else 0)"

fun escapes_ok :: "string \<Rightarrow> bool" where
  "escapes_ok [] = True"
| "escapes_ok (c # cs) =
     (if c = CHR ''%'' then
        (case cs of
           a # b # rest \<Rightarrow> ishex a \<and> ishex b \<and> escapes_ok rest
         | _ \<Rightarrow> False)
      else escapes_ok cs)"

fun unescape_bytes :: "string \<Rightarrow> string" where
  "unescape_bytes (c # a # b # rest) =
     (if c = CHR ''%'' then char_of (unhex a * 16 + unhex b) # unescape_bytes rest
      else (if c = CHR ''+'' then CHR '' '' else c) # unescape_bytes (a # b # rest))"
| "unescape_bytes (c # cs) = (if c = CHR ''+'' then CHR '' '' else c) # unescape_bytes cs"
| "unescape_bytes [] = []"

definition QueryUnescape :: "string \<Rightarrow> error + string" where
  "QueryUnescape s =
     (if escapes_ok s then Inr (unescape_bytes s)
      else Inl (errorString ''invalid URL escape''))"

text \<open>
  \<^verbatim>\<open>url.Values\<close> is \<^verbatim>\<open>map[string][]string\<close>: an association list with one entry
  for each key. \<^verbatim>\<open>Add\<close> appends a value to the key's list; \<^verbatim>\<open>Encode\<close> walks the
  keys in sorted (byte-wise) order and writes \<^verbatim>\<open>key=value\<close> for each value of each
  key, both escaped, joined with \<^verbatim>\<open>&\<close>.
\<close>

type_synonym Values = "(string \<times> string list) list"

definition Values_lookup :: "Values \<Rightarrow> string \<Rightarrow> string list" where
  "Values_lookup v k = (case map_of v k of None \<Rightarrow> [] | Some vs \<Rightarrow> vs)"

fun Values_Add :: "Values \<Rightarrow> string \<Rightarrow> string \<Rightarrow> Values" where
  "Values_Add [] key val = [(key, [val])]"
| "Values_Add ((k, vs) # rest) key val =
     (if k = key then (k, vs @ [val]) # rest else (k, vs) # Values_Add rest key val)"

fun join_amp :: "string list \<Rightarrow> string" where
  "join_amp [] = []"
| "join_amp [p] = p"
| "join_amp (p # q # ps) = p @ ''&'' @ join_amp (q # ps)"

definition Values_Encode :: "Values \<Rightarrow> string" where
  "Values_Encode v =
     join_amp (concat (map (\<lambda>k. map (\<lambda>x. QueryEscape k @ ''='' @ QueryEscape x)
                                   (Values_lookup v k))
                           (sort (map fst v))))"

text \<open>
  \<^verbatim>\<open>URL.Query()\<close> is \<^verbatim>\<open>ParseQuery(RawQuery)\<close> with the error dropped: the query is cut
  at every \<^verbatim>\<open>&\<close>; a piece holding a \<^verbatim>\<open>;\<close>, an empty piece and a piece whose key
  or value does not unescape are skipped; the others are added, key and value cut
  at the first \<^verbatim>\<open>=\<close>.
\<close>

fun cut :: "char \<Rightarrow> string \<Rightarrow> string \<times> string" where
  "cut sep [] = ([], [])"
| "cut sep (c # cs) =
     (if c = sep then ([], cs) else (case cut sep cs of (a, b) \<Rightarrow> (c # a, b)))"

fun split_amp :: "string \<Rightarrow> string list" where
  "split_amp [] = [[]]"
| "split_amp (c # cs) =
     (if c = CHR ''&'' then [] # split_amp cs
      else (case split_amp cs of p # ps \<Rightarrow> (c # p) # ps | [] \<Rightarrow> [[c]]))"

definition parseQuery_piece :: "Values \<Rightarrow> string \<Rightarrow> Values" where
  "parseQuery_piece m piece =
     (if CHR '';'' \<in> set piece then m
      else if piece = [] then m
      else (case cut CHR ''='' piece of (key, val) \<Rightarrow>
        (case QueryUnescape key of
           Inl _ \<Rightarrow> m
         | Inr key' \<Rightarrow>
             (case QueryUnescape val of
                Inl _ \<Rightarrow> m
              | Inr val' \<Rightarrow> Values_Add m key' val'))))"

definition ParseQuery :: "string \<Rightarrow> Values" where
  "ParseQuery query = (if query = [] then [] else foldl parseQuery_piece [] (split_amp query))"

subsection \<open>URLs, the clock and the options\<close>

text \<open>
  \<^verbatim>\<open>url.URL\<close> with its fields. Parsing a string into a URL and printing a URL are
  the library's (\<^verbatim>\<open>url.Parse\<close>, \<^verbatim>\<open>URL.String\<close>), and so is reading an RFC3339
  timestamp into a \<^verbatim>\<open>time.Time\<close> (\<^verbatim>\<open>parseStrictRFC3339\<close>, behind
  \<^verbatim>\<open>Time.UnmarshalJSON\<close>); the model takes them as the functions of a \<open>stdlib\<close>
  value and fixes nothing about them. A \<^verbatim>\<open>time.Time\<close> is an instant counted in
  nanoseconds from the zero \<^verbatim>\<open>Time\<close>.
\<close>

type_synonym Time = int

record URL =
  Scheme :: string
  Opaque :: string
  User :: "(string \<times> string option) option"
  Host :: string
  Path :: string
  RawPath :: string
  OmitHost :: bool
  ForceQuery :: bool
  RawQuery :: string
  Fragment :: string
  RawFragment :: string

record stdlib =
  url_Parse :: "string \<Rightarrow> error + URL"
  URL_String :: "URL \<Rightarrow> string"
  time_Parse :: "string \<Rightarrow> error + Time"

definition URL_Query :: "URL \<Rightarrow> Values" where
  "URL_Query u = ParseQuery (RawQuery u)"

record ReleaseOptions =
  Limit :: int
  After :: string
  LicenseClass :: string

text \<open>
  \<^verbatim>\<open>handleReleaseOptions(u, options)\<close>. \<open>now\<close> is the value of
  \<^verbatim>\<open>time.Now().UTC().Format(time.RFC3339)\<close> at the call; \<open>options\<close> is the
  pointer, \<open>None\<close> for \<^verbatim>\<open>nil\<close>. The two defaults are guarded by
  \<^verbatim>\<open>options != nil\<close>; the read of \<^verbatim>\<open>options.LicenseClass\<close> after the parse is
  not, and dereferences the pointer.
\<close>

definition nil_dereference :: string where
  "nil_dereference = ''runtime error: invalid memory address or nil pointer dereference''"

definition handleReleaseOptions ::
  "stdlib \<Rightarrow> string \<Rightarrow> string \<Rightarrow> ReleaseOptions option \<Rightarrow> (error + string) outcome" where
  "handleReleaseOptions L now u options =
     (let limit = (case options of
                     None \<Rightarrow> 10
                   | Some opts \<Rightarrow> if Limit opts \<noteq> 0 then Limit opts else 10);
          after = (case options of
                     None \<Rightarrow> now
                   | Some opts \<Rightarrow> if After opts \<noteq> [] then After opts else now)
      in case url_Parse L u of
           Inl err \<Rightarrow> Returns (Inl err)
         | Inr urlA \<Rightarrow>
             (let values = URL_Query urlA;
                  values = Values_Add values ''limit'' (Itoa limit);
                  values = Values_Add values ''after'' after
              in case options of
                   None \<Rightarrow> Panics nil_dereference
                 | Some opts \<Rightarrow>
                     (let values = (if LicenseClass opts \<noteq> [] then
                                      Values_Add values ''license_class'' (LicenseClass opts)
                                    else values)
                      in Returns (Inr (URL_String L (urlA\<lparr>RawQuery := Values_Encode values\<rparr>))))))"

subsection \<open>encoding/json: decoding a value into the package's types\<close>

text \<open>
  A response body is what the JSON scanner makes of its bytes: the first JSON value
  they spell, or the scanner's error (a syntax error, or \<^verbatim>\<open>io.EOF\<close> for an empty
  body). A number is \<open>JInt\<close> when its literal has neither fraction nor exponent,
  and \<open>JFloat\<close> with the literal otherwise. An object keeps its members in the
  order of the text, duplicates included.
\<close>

datatype json =
    JNull
  | JBool bool
  | JInt int
  | JFloat string
  | JString string
  | JArray "json list"
  | JObject "(string \<times> json) list"

datatype body = Malformed error | Value json

text \<open>
  How a type error describes the JSON value it met: \<^verbatim>\<open>bool\<close>, \<^verbatim>\<open>number\<close>,
  \<^verbatim>\<open>string\<close>, \<^verbatim>\<open>array\<close> or \<^verbatim>\<open>object\<close>. Only a number that does not fit an
  integer destination is described with its literal (\<open>number_literal\<close>, used by
  \<open>decode_int\<close>); the literal of a \<open>JInt\<close> is its decimal form.
\<close>

fun json_kind :: "json \<Rightarrow> string" where
  "json_kind JNull = ''null''"
| "json_kind (JBool b) = ''bool''"
| "json_kind (JInt i) = ''number''"
| "json_kind (JFloat s) = ''number''"
| "json_kind (JString s) = ''string''"
| "json_kind (JArray js) = ''array''"
| "json_kind (JObject kvs) = ''object''"

fun number_literal :: "json \<Rightarrow> string" where
  "number_literal (JInt i) = Itoa i"
| "number_literal (JFloat s) = s"
| "number_literal j = []"

text \<open>
  The decoder keeps the first type error it meets (\<^verbatim>\<open>saveError\<close>) and goes on; the
  error of an \<^verbatim>\<open>Unmarshaler\<close> stops it at once. A type error is saved with the
  place it occurred in (\<^verbatim>\<open>addErrorContext\<close>): the name of the struct being decoded
  and the path of JSON field names that leads to the value, joined with dots. So
  decoding into a destination is a function from that context, the JSON value, the
  saved error and the destination's value to either the stopping error or the new
  saved error and value. \<^verbatim>\<open>null\<close> leaves a string, a bool, an int, a struct and a
  \<^verbatim>\<open>time.Time\<close> as they are and makes a slice nil.
\<close>

record errorContext =
  Struct :: string
  FieldStack :: "string list"

definition no_errorContext :: errorContext where
  "no_errorContext = \<lparr>Struct = [], FieldStack = []\<rparr>"

fun join_dot :: "string list \<Rightarrow> string" where
  "join_dot [] = []"
| "join_dot [p] = p"
| "join_dot (p # q # ps) = p @ ''.'' @ join_dot (q # ps)"

definition addErrorContext :: "errorContext \<Rightarrow> error \<Rightarrow> error" where
  "addErrorContext ctx err =
     (if Struct ctx \<noteq> [] \<or> FieldStack ctx \<noteq> [] then
        (case err of
           UnmarshalTypeError v t s f \<Rightarrow>
             UnmarshalTypeError v t (Struct ctx) (join_dot (FieldStack ctx))
         | _ \<Rightarrow> err)
      else err)"

type_synonym 'a unmarshal =
  "errorContext \<Rightarrow> json \<Rightarrow> error option \<times> 'a \<Rightarrow> error + error option \<times> 'a"

definition saveError :: "errorContext \<Rightarrow> error \<Rightarrow> error option \<Rightarrow> error option" where
  "saveError ctx err saved =
     (case saved of None \<Rightarrow> Some (addErrorContext ctx err) | Some e \<Rightarrow> Some e)"

definition decode_string :: "string unmarshal" where
  "decode_string ctx j st =
     (case j of
        JNull \<Rightarrow> Inr st
      | JString s \<Rightarrow> Inr (fst st, s)
      | _ \<Rightarrow> Inr (saveError ctx (UnmarshalTypeError (json_kind j) ''string'' [] []) (fst st),
                 snd st))"

definition decode_bool :: "bool unmarshal" where
  "decode_bool ctx j st =
     (case j of
        JNull \<Rightarrow> Inr st
      | JBool b \<Rightarrow> Inr (fst st, b)
      | _ \<Rightarrow> Inr (saveError ctx (UnmarshalTypeError (json_kind j) ''bool'' [] []) (fst st),
                 snd st))"

definition decode_int :: "int unmarshal" where
  "decode_int ctx j st =
     (case j of
        JNull \<Rightarrow> Inr st
      | JInt i \<Rightarrow>
          (if - (2 ^ 63) \<le> i \<and> i < 2 ^ 63 then Inr (fst st, i)
           else Inr (saveError ctx
                  (UnmarshalTypeError (''number '' @ number_literal j) ''int'' [] []) (fst st),
                 snd st))
      | JFloat s \<Rightarrow>
          Inr (saveError ctx
                 (UnmarshalTypeError (''number '' @ number_literal j) ''int'' [] []) (fst st),
               snd st)
      | _ \<Rightarrow> Inr (saveError ctx (UnmarshalTypeError (json_kind j) ''int'' [] []) (fst st),
                 snd st))"

definition decode_Time :: "stdlib \<Rightarrow> Time unmarshal" where
  "decode_Time L ctx j st =
     (case j of
        JNull \<Rightarrow> Inr st
      | JString s \<Rightarrow>
          (case time_Parse L s of Inl err \<Rightarrow> Inl err | Inr t \<Rightarrow> Inr (fst st, t))
      | _ \<Rightarrow> Inl (errorString ''Time.UnmarshalJSON: input is not a JSON string''))"

text \<open>
  An array into a slice: element \<open>i\<close> is decoded into the slice's element \<open>i\<close>
  when it has one and into a zero value otherwise, and the slice ends with as many
  elements as the array.
\<close>

fun decode_elems ::
  "'a \<Rightarrow> 'a unmarshal \<Rightarrow> errorContext \<Rightarrow> json list \<Rightarrow> error option \<Rightarrow> 'a list
     \<Rightarrow> error + error option \<times> 'a list" where
  "decode_elems zero dec ctx [] saved xs = Inr (saved, [])"
| "decode_elems zero dec ctx (j # js) saved xs =
     (case dec ctx j (saved, case xs of [] \<Rightarrow> zero | x # _ \<Rightarrow> x) of
        Inl err \<Rightarrow> Inl err
      | Inr (saved', y) \<Rightarrow>
          (case decode_elems zero dec ctx js saved' (tl xs) of
             Inl err \<Rightarrow> Inl err
           | Inr (saved'', ys) \<Rightarrow> Inr (saved'', y # ys)))"

definition decode_slice :: "string \<Rightarrow> 'a \<Rightarrow> 'a unmarshal \<Rightarrow> 'a list unmarshal" where
  "decode_slice tn zero dec ctx j st =
     (case j of
        JNull \<Rightarrow> Inr (fst st, [])
      | JArray js \<Rightarrow> decode_elems zero dec ctx js (fst st) (snd st)
      | _ \<Rightarrow> Inr (saveError ctx (UnmarshalTypeError (json_kind j) tn [] []) (fst st), snd st))"

text \<open>
  An object into a struct: for each member in turn, the field whose JSON name is
  the key, or else the first field whose name equals the key under case folding,
  takes the value, decoded in the context of that struct and field; a key with no
  field is skipped. Folding maps the ASCII letters
  to upper case, and the two characters beyond ASCII that fold to an ASCII letter:
  the Kelvin sign (bytes E2 84 AA) to K and the long s (bytes C5 BF) to S.
\<close>

definition upper :: "char \<Rightarrow> char" where
  "upper c =
     (if CHR ''a'' \<le> c \<and> c \<le> CHR ''z'' then
        ''ABCDEFGHIJKLMNOPQRSTUVWXYZ'' ! (of_char c - of_char CHR ''a'')
      else c)"

fun foldName :: "string \<Rightarrow> string" where
  "foldName [] = []"
| "foldName (c # cs) =
     (if c = CHR 0xE2 \<and> take 2 cs = [CHR 0x84, CHR 0xAA] then CHR ''K'' # foldName (drop 2 cs)
      else if c = CHR 0xC5 \<and> take 1 cs = [CHR 0xBF] then CHR ''S'' # foldName (drop 1 cs)
      else upper c # foldName cs)"

definition findField :: "string list \<Rightarrow> string \<Rightarrow> string option" where
  "findField fnames key =
     (if key \<in> set fnames then Some key
      else find (\<lambda>f. foldName f = foldName key) fnames)"

fun decode_members ::
  "string \<Rightarrow> string list \<Rightarrow> (string \<Rightarrow> 'r unmarshal) \<Rightarrow> errorContext
     \<Rightarrow> (string \<times> json) list \<Rightarrow> error option \<times> 'r \<Rightarrow> error + error option \<times> 'r" where
  "decode_members sn fnames setf ctx [] st = Inr st"
| "decode_members sn fnames setf ctx ((key, v) # kvs) st =
     (case findField fnames key of
        None \<Rightarrow> decode_members sn fnames setf ctx kvs st
      | Some f \<Rightarrow>
          (case setf f \<lparr>Struct = sn, FieldStack = FieldStack ctx @ [f]\<rparr> v st of
             Inl err \<Rightarrow> Inl err
           | Inr st' \<Rightarrow> decode_members sn fnames setf ctx kvs st'))"

text \<open>
  \<open>decode_struct tn sn\<close>: \<open>tn\<close> is the struct type as an error prints it
  (\<^verbatim>\<open>Type.String()\<close>, with the package), \<open>sn\<close> its bare name (\<^verbatim>\<open>Type.Name()\<close>).
\<close>

definition decode_struct ::
  "string \<Rightarrow> string \<Rightarrow> string list \<Rightarrow> (string \<Rightarrow> 'r unmarshal) \<Rightarrow> 'r unmarshal" where
  "decode_struct tn sn fnames setf ctx j st =
     (case j of
        JNull \<Rightarrow> Inr st
      | JObject kvs \<Rightarrow> decode_members sn fnames setf ctx kvs st
      | _ \<Rightarrow> Inr (saveError ctx (UnmarshalTypeError (json_kind j) tn [] []) (fst st), snd st))"

text \<open>Decoding into one field of a struct: read the field, decode, write it back.\<close>

definition into :: "'a unmarshal \<Rightarrow> ('r \<Rightarrow> 'a) \<Rightarrow> ('a \<Rightarrow> 'r \<Rightarrow> 'r) \<Rightarrow> 'r unmarshal" where
  "into dec get put ctx j st =
     (case dec ctx j (fst st, get (snd st)) of
        Inl err \<Rightarrow> Inl err
      | Inr (saved, x) \<Rightarrow> Inr (saved, put x (snd st)))"

text \<open>
  \<^verbatim>\<open>json.NewDecoder(body).Decode(&v)\<close>: a body that is not JSON gives the scanner's
  error; \<^verbatim>\<open>null\<close> leaves the destination as it is; otherwise the value is decoded
  with no context at the start, and the saved type error, if any, is the result.
  The destination's type picks the \<open>unmarshal\<close> function.
\<close>

definition json_Decode :: "'a unmarshal \<Rightarrow> body \<Rightarrow> 'a \<Rightarrow> error + 'a" where
  "json_Decode dec b v =
     (case b of
        Malformed err \<Rightarrow> Inl err
      | Value JNull \<Rightarrow> Inr v
      | Value j \<Rightarrow>
          (case dec no_errorContext j (None, v) of
             Inl err \<Rightarrow> Inl err
           | Inr (Some err, _) \<Rightarrow> Inl err
           | Inr (None, v') \<Rightarrow> Inr v'))"

subsection \<open>The response types and their JSON names\<close>

text \<open>
  The structs of the release endpoints. A field's JSON name is its \<^verbatim>\<open>json\<close> tag;
  the fields of \<^verbatim>\<open>Status\<close> carry no tag, so their JSON names are the Go names
  \<^verbatim>\<open>Message\<close>, \<^verbatim>\<open>State\<close> and \<^verbatim>\<open>TimestampUpdated\<close>. The tag of
  \<^verbatim>\<open>SourceRepositoryURL\<close> is \<^verbatim>\<open>url_sorce_repository\<close>.
\<close>

record Build =
  Architecture :: string
  OperatingSystem :: string
  Unsupported :: bool
  Build_URL :: string

record Status =
  Status_Message :: string
  Status_State :: string
  Status_TimestampUpdated :: Time

record Release =
  Builds :: "Build list"
  DockerNameTag :: string
  IsPrerelease :: bool
  Release_LicenseClass :: string
  Name :: string
  Status :: Status
  TimestampCreated :: string
  TimestampUpdated :: string
  BlogpostURL :: string
  ChangelogURL :: string
  DockerhubURL :: string
  AmazonECRURL :: string
  LicenseURL :: string
  WebsiteURL :: string
  ReleaseNotesURL :: string
  ShaSumsURL :: string
  ShaSumsSignaturesURL :: "string list"
  SourceRepositoryURL :: string
  Version :: string

record errorResponse =
  errorResponse_Status :: int
  errorResponse_Message :: string

definition zero_Build :: Build where
  "zero_Build = \<lparr>Architecture = [], OperatingSystem = [], Unsupported = False, Build_URL = []\<rparr>"

definition zero_Status :: Status where
  "zero_Status = \<lparr>Status_Message = [], Status_State = [], Status_TimestampUpdated = 0\<rparr>"

definition zero_Release :: Release where
  "zero_Release =
     \<lparr>Builds = [], DockerNameTag = [], IsPrerelease = False, Release_LicenseClass = [],
      Name = [], Status = zero_Status, TimestampCreated = [], TimestampUpdated = [],
      BlogpostURL = [], ChangelogURL = [], DockerhubURL = [], AmazonECRURL = [],
      LicenseURL = [], WebsiteURL = [], ReleaseNotesURL = [], ShaSumsURL = [],
      ShaSumsSignaturesURL = [], SourceRepositoryURL = [], Version = []\<rparr>"

definition zero_errorResponse :: errorResponse where
  "zero_errorResponse = \<lparr>errorResponse_Status = 0, errorResponse_Message = []\<rparr>"

definition Build_fnames :: "string list" where
  "Build_fnames = [''arch'', ''os'', ''unsupported'', ''url'']"

definition set_Build_field :: "string \<Rightarrow> Build unmarshal" where
  "set_Build_field f =
     (if f = ''arch'' then into decode_string Architecture (\<lambda>x r. r\<lparr>Architecture := x\<rparr>)
      else if f = ''os'' then into decode_string OperatingSystem (\<lambda>x r. r\<lparr>OperatingSystem := x\<rparr>)
      else if f = ''unsupported'' then into decode_bool Unsupported (\<lambda>x r. r\<lparr>Unsupported := x\<rparr>)
      else if f = ''url'' then into decode_string Build_URL (\<lambda>x r. r\<lparr>Build_URL := x\<rparr>)
      else (\<lambda>ctx j st. Inr st))"

definition decode_Build :: "Build unmarshal" where
  "decode_Build = decode_struct ''hashicorpreleases.Build'' ''Build'' Build_fnames set_Build_field"

definition Status_fnames :: "string list" where
  "Status_fnames = [''Message'', ''State'', ''TimestampUpdated'']"

definition set_Status_field :: "stdlib \<Rightarrow> string \<Rightarrow> Status unmarshal" where
  "set_Status_field L f =
     (if f = ''Message'' then into decode_string Status_Message (\<lambda>x r. r\<lparr>Status_Message := x\<rparr>)
      else if f = ''State'' then into decode_string Status_State (\<lambda>x r. r\<lparr>Status_State := x\<rparr>)
      else if f = ''TimestampUpdated'' then
        into (decode_Time L) Status_TimestampUpdated (\<lambda>x r. r\<lparr>Status_TimestampUpdated := x\<rparr>)
      else (\<lambda>ctx j st. Inr st))"

definition decode_Status :: "stdlib \<Rightarrow> Status unmarshal" where
  "decode_Status L =
     decode_struct ''hashicorpreleases.Status'' ''Status'' Status_fnames (set_Status_field L)"

definition Release_fnames :: "string list" where
  "Release_fnames =
     [''builds'', ''docker_name_tag'', ''is_prerelease'', ''license_class'', ''name'',
      ''status'', ''timestamp_created'', ''timestamp_updated'', ''url_blogpost'',
      ''url_changelog'', ''url_docker_registry_dockerhub'', ''url_docker_registry_ecr'',
      ''url_license'', ''url_project_website'', ''url_release_notes'', ''url_shasums'',
      ''url_shasums_signatures'', ''url_sorce_repository'', ''version'']"

definition set_Release_field :: "stdlib \<Rightarrow> string \<Rightarrow> Release unmarshal" where
  "set_Release_field L f =
     (if f = ''builds'' then
        into (decode_slice ''[]hashicorpreleases.Build'' zero_Build decode_Build)
          Builds (\<lambda>x r. r\<lparr>Builds := x\<rparr>)
      else if f = ''docker_name_tag'' then
        into decode_string DockerNameTag (\<lambda>x r. r\<lparr>DockerNameTag := x\<rparr>)
      else if f = ''is_prerelease'' then
        into decode_bool IsPrerelease (\<lambda>x r. r\<lparr>IsPrerelease := x\<rparr>)
      else if f = ''license_class'' then
        into decode_string Release_LicenseClass (\<lambda>x r. r\<lparr>Release_LicenseClass := x\<rparr>)
      else if f = ''name'' then into decode_string Name (\<lambda>x r. r\<lparr>Name := x\<rparr>)
      else if f = ''status'' then into (decode_Status L) Status (\<lambda>x r. r\<lparr>Status := x\<rparr>)
      else if f = ''timestamp_created'' then
        into decode_string TimestampCreated (\<lambda>x r. r\<lparr>TimestampCreated := x\<rparr>)
      else if f = ''timestamp_updated'' then
        into decode_string TimestampUpdated (\<lambda>x r. r\<lparr>TimestampUpdated := x\<rparr>)
      else if f = ''url_blogpost'' then
        into decode_string BlogpostURL (\<lambda>x r. r\<lparr>BlogpostURL := x\<rparr>)
      else if f = ''url_changelog'' then
        into decode_string ChangelogURL (\<lambda>x r. r\<lparr>ChangelogURL := x\<rparr>)
      else if f = ''url_docker_registry_dockerhub'' then
        into decode_string DockerhubURL (\<lambda>x r. r\<lparr>DockerhubURL := x\<rparr>)
      else if f = ''url_docker_registry_ecr'' then
        into decode_string AmazonECRURL (\<lambda>x r. r\<lparr>AmazonECRURL := x\<rparr>)
      else if f = ''url_license'' then
        into decode_string LicenseURL (\<lambda>x r. r\<lparr>LicenseURL := x\<rparr>)
      else if f = ''url_project_website'' then
        into decode_string WebsiteURL (\<lambda>x r. r\<lparr>WebsiteURL := x\<rparr>)
      else if f = ''url_release_notes'' then
        into decode_string ReleaseNotesURL (\<lambda>x r. r\<lparr>ReleaseNotesURL := x\<rparr>)
      else if f = ''url_shasums'' then
        into decode_string ShaSumsURL (\<lambda>x r. r\<lparr>ShaSumsURL := x\<rparr>)
      else if f = ''url_shasums_signatures'' then
        into (decode_slice ''[]string'' [] decode_string)
          ShaSumsSignaturesURL (\<lambda>x r. r\<lparr>ShaSumsSignaturesURL := x\<rparr>)
      else if f = ''url_sorce_repository'' then
        into decode_string SourceRepositoryURL (\<lambda>x r. r\<lparr>SourceRepositoryURL := x\<rparr>)
      else if f = ''version'' then into decode_string Version (\<lambda>x r. r\<lparr>Version := x\<rparr>)
      else (\<lambda>ctx j st. Inr st))"

definition decode_Release :: "stdlib \<Rightarrow> string \<Rightarrow> string \<Rightarrow> Release unmarshal" where
  "decode_Release L tn sn = decode_struct tn sn Release_fnames (set_Release_field L)"

definition decode_ReleaseMetadataResponse :: "stdlib \<Rightarrow> Release unmarshal" where
  "decode_ReleaseMetadataResponse L =
     decode_Release L ''hashicorpreleases.ReleaseMetadataResponse'' ''ReleaseMetadataResponse''"

definition decode_ReleasesResponse :: "stdlib \<Rightarrow> Release list unmarshal" where
  "decode_ReleasesResponse L =
     decode_slice ''hashicorpreleases.ReleasesResponse'' zero_Release
       (decode_Release L ''hashicorpreleases.Release'' ''Release'')"

definition decode_ProductResponse :: "string list unmarshal" where
  "decode_ProductResponse = decode_slice ''hashicorpreleases.ProductResponse'' [] decode_string"

definition errorResponse_fnames :: "string list" where
  "errorResponse_fnames = [''code'', ''message'']"

definition set_errorResponse_field :: "string \<Rightarrow> errorResponse unmarshal" where
  "set_errorResponse_field f =
     (if f = ''code'' then
        into decode_int errorResponse_Status (\<lambda>x r. r\<lparr>errorResponse_Status := x\<rparr>)
      else if f = ''message'' then
        into decode_string errorResponse_Message (\<lambda>x r. r\<lparr>errorResponse_Message := x\<rparr>)
      else (\<lambda>ctx j st. Inr st))"

definition decode_errorResponse :: "errorResponse unmarshal" where
  "decode_errorResponse =
     decode_struct ''hashicorpreleases.errorResponse'' ''errorResponse'' errorResponse_fnames
       set_errorResponse_field"

subsection \<open>The client and the request executor\<close>

text \<open>
  \<^verbatim>\<open>NewClient\<close> reads \<^verbatim>\<open>RELEASES_URL\<close> from the environment, a partial map;
  \<^verbatim>\<open>os.Getenv\<close> gives the empty string for a variable that is not set. A
  \<^verbatim>\<open>time.Duration\<close> counts nanoseconds.
\<close>

record http_Client =
  Timeout :: int

record Client =
  URL :: string
  HTTPClient :: http_Client

definition Getenv :: "(string \<rightharpoonup> string) \<Rightarrow> string \<Rightarrow> string" where
  "Getenv env key = (case env key of None \<Rightarrow> [] | Some v \<Rightarrow> v)"

definition Minute :: int where
  "Minute = 60 * 1000000000"

definition NewClient :: "(string \<rightharpoonup> string) \<Rightarrow> Client" where
  "NewClient env =
     (let url = Getenv env ''RELEASES_URL'';
          url = (if url = [] then ''https://api.releases.hashicorp.com/v1'' else url)
      in \<lparr>URL = url, HTTPClient = \<lparr>Timeout = Minute * 1\<rparr>\<rparr>)"

text \<open>
  \<^verbatim>\<open>http.NewRequest(method, url, nil)\<close> parses the URL, drops an empty port from its
  host and builds the request with an empty header; the parse error is its error.
  (It also rejects a method that is not a token; every call here passes
  \<^verbatim>\<open>"GET"\<close>.) \<^verbatim>\<open>Header.Set\<close> replaces the values of a key; the two keys set
  here are in canonical form already.
\<close>

record Request =
  Method :: string
  Request_URL :: URL
  Header :: "string \<rightharpoonup> string list"
  Request_Host :: string

definition LastIndex :: "string \<Rightarrow> char \<Rightarrow> int" where
  "LastIndex s c =
     (if c \<in> set s then int (length s) - 1 - int (length (takeWhile (\<lambda>x. x \<noteq> c) (rev s)))
      else - 1)"

definition removeEmptyPort :: "string \<Rightarrow> string" where
  "removeEmptyPort host =
     (if LastIndex host CHR '':'' > LastIndex host CHR '']'' \<and> host \<noteq> [] \<and> last host = CHR '':''
      then butlast host else host)"

definition NewRequest :: "stdlib \<Rightarrow> string \<Rightarrow> string \<Rightarrow> error + Request" where
  "NewRequest L method url =
     (case url_Parse L url of
        Inl err \<Rightarrow> Inl err
      | Inr u \<Rightarrow>
          Inr \<lparr>Method = method, Request_URL = u\<lparr>Host := removeEmptyPort (Host u)\<rparr>,
               Header = Map.empty, Request_Host = removeEmptyPort (Host u)\<rparr>)"

definition Header_Set :: "(string \<rightharpoonup> string list) \<Rightarrow> string \<Rightarrow> string \<Rightarrow> (string \<rightharpoonup> string list)" where
  "Header_Set h key val = h(key \<mapsto> [val])"

definition setJSONHeader :: "Request \<Rightarrow> Request" where
  "setJSONHeader r = r\<lparr>Header := Header_Set (Header r) ''Content-Type'' ''application/json; charset=utf-8''\<rparr>"

record Response =
  StatusCode :: int
  Body :: body

text \<open>
  The network is a function: \<^verbatim>\<open>c.HTTPClient.Do(req)\<close> answers a request with a
  response or with the transport's error. \<^verbatim>\<open>sendRequest\<close> returns its error (or
  the decoded destination) together with the list of the requests it handed to
  \<^verbatim>\<open>Do\<close>. The \<^verbatim>\<open>interface{}\<close> destination is the pair of its \<open>unmarshal\<close>
  function and its value.
\<close>

type_synonym transport = "http_Client \<Rightarrow> Request \<Rightarrow> error + Response"

definition sendRequest ::
  "transport \<Rightarrow> Client \<Rightarrow> Request \<Rightarrow> 'a unmarshal \<Rightarrow> 'a \<Rightarrow> (error + 'a) \<times> Request list" where
  "sendRequest T c req dec v =
     (let req = req\<lparr>Header := Header_Set (Header req) ''Accept'' ''application/json; charset=utf-8''\<rparr>
      in case T (HTTPClient c) req of
           Inl err \<Rightarrow> (Inl err, [req])
         | Inr res \<Rightarrow>
             (if StatusCode res \<noteq> 200 then
                (case json_Decode decode_errorResponse (Body res) zero_errorResponse of
                   Inr errRes \<Rightarrow>
                     (Inl (errorString (''error: '' @ errorResponse_Message errRes
                             @ ''; status code: '' @ Itoa (StatusCode res))), [req])
                 | Inl _ \<Rightarrow>
                     (Inl (errorString (''unknown error, status code: ''
                             @ Itoa (StatusCode res))), [req]))
              else
                (case json_Decode dec (Body res) v of
                   Inl err \<Rightarrow>
                     (Inl (errorString (''error decoding response body: '' @ Error err)), [req])
                 | Inr v' \<Rightarrow> (Inr v', [req]))))"

subsection \<open>The endpoints\<close>

definition GetProducts ::
  "stdlib \<Rightarrow> transport \<Rightarrow> Client \<Rightarrow> (error + string list) \<times> Request list" where
  "GetProducts L T c =
     (case NewRequest L ''GET'' (URL c @ ''/products'') of
        Inl err \<Rightarrow> (Inl err, [])
      | Inr req \<Rightarrow> sendRequest T c (setJSONHeader req) decode_ProductResponse [])"

definition GetReleaseMetadata ::
  "stdlib \<Rightarrow> transport \<Rightarrow> Client \<Rightarrow> string \<Rightarrow> string \<Rightarrow> (error + Release) \<times> Request list" where
  "GetReleaseMetadata L T c product version =
     (case NewRequest L ''GET'' (URL c @ ''/releases/'' @ product @ ''/'' @ version) of
        Inl err \<Rightarrow> (Inl err, [])
      | Inr req \<Rightarrow>
          sendRequest T c (setJSONHeader req) (decode_ReleaseMetadataResponse L) zero_Release)"

definition GetReleases ::
  "stdlib \<Rightarrow> transport \<Rightarrow> string \<Rightarrow> Client \<Rightarrow> string \<Rightarrow> ReleaseOptions option
     \<Rightarrow> (error + Release list) outcome \<times> Request list" where
  "GetReleases L T now c product options =
     (let u = URL c @ ''/releases/'' @ product
      in case handleReleaseOptions L now u options of
           Panics p \<Rightarrow> (Panics p, [])
         | Returns (Inl err) \<Rightarrow> (Returns (Inl err), [])
         | Returns (Inr fullURL) \<Rightarrow>
             (case NewRequest L ''GET'' fullURL of
                Inl err \<Rightarrow> (Returns (Inl err), [])
              | Inr req \<Rightarrow>
                  (case sendRequest T c (setJSONHeader req) (decode_ReleasesResponse L) [] of
                     (res, sent) \<Rightarrow> (Returns res, sent))))"

subsection \<open>A library and a server for the examples\<close>

text \<open>
  The examples need some \<open>stdlib\<close> and some network. \<open>test_stdlib\<close> parses a
  URL the way \<^verbatim>\<open>url.Parse\<close> does on the strings used below: a control character is
  an error, the text after the first \<^verbatim>\<open>?\<close> is the raw query, and (which is where it
  departs from the library) all the text before it is kept as the path; it prints a
  URL back from these two, and it reads one timestamp, the Unix epoch.
  \<open>mock_transport res\<close> is a server that answers every request with \<open>res\<close>.
\<close>

definition test_URL :: "string \<Rightarrow> string \<Rightarrow> URL" where
  "test_URL p q =
     \<lparr>Scheme = [], Opaque = [], User = None, Host = [], Path = p, RawPath = [],
      OmitHost = False, ForceQuery = False, RawQuery = q, Fragment = [], RawFragment = []\<rparr>"

definition test_stdlib :: stdlib where
  "test_stdlib =
     \<lparr>url_Parse = (\<lambda>s.
        if list_ex (\<lambda>c. c < CHR 0x20 \<or> c = CHR 0x7F) s then
          Inl (errorString ''net/url: invalid control character in URL'')
        else Inr (test_URL (fst (cut CHR ''?'' s)) (snd (cut CHR ''?'' s)))),
      URL_String = (\<lambda>u. Path u @ (if RawQuery u = [] then [] else ''?'' @ RawQuery u)),
      time_Parse = (\<lambda>s.
        if s = ''1970-01-01T00:00:00Z'' then Inr 62135596800000000000
        else Inl (errorString ''parsing time: not the timestamp known here''))\<rparr>"

definition mock_transport :: "Response \<Rightarrow> transport" where
  "mock_transport res = (\<lambda>hc req. Inr res)"

definition test_request :: "string \<Rightarrow> string \<Rightarrow> Request" where
  "test_request p q = \<lparr>Method = ''GET'', Request_URL = test_URL p q, Header = Map.empty, Request_Host = []\<rparr>"

text \<open>
  A release as the API documents it, with every key of the \<^verbatim>\<open>Release\<close> struct's
  documentation: the repository under \<^verbatim>\<open>url_source_repository\<close> and the status
  with \<^verbatim>\<open>message\<close>, \<^verbatim>\<open>state\<close> and \<^verbatim>\<open>timestamp_updated\<close>.
\<close>

definition vault_release_json :: json where
  "vault_release_json = JObject
     [(''builds'', JArray [JObject [(''arch'', JString ''amd64''), (''os'', JString ''linux''),
         (''unsupported'', JBool False),
         (''url'', JString ''https://releases.hashicorp.com/vault/1.2.3/vault_1.2.3_linux_amd64.zip'')]]),
      (''docker_name_tag'', JString ''vault:1.2.3''),
      (''is_prerelease'', JBool False),
      (''license_class'', JString ''oss''),
      (''name'', JString ''vault''),
      (''status'', JObject [(''message'', JString ''released''), (''state'', JString ''supported''),
         (''timestamp_updated'', JString ''1970-01-01T00:00:00Z'')]),
      (''timestamp_created'', JString ''2019-09-09T00:00:00Z''),
      (''timestamp_updated'', JString ''2019-09-10T00:00:00Z''),
      (''url_blogpost'', JString ''https://www.hashicorp.com/blog/vault-1-2''),
      (''url_changelog'', JString ''https://github.com/hashicorp/vault/blob/main/CHANGELOG.md''),
      (''url_docker_registry_dockerhub'', JString ''https://hub.docker.com/_/vault''),
      (''url_docker_registry_ecr'', JString ''https://gallery.ecr.aws/hashicorp/vault''),
      (''url_license'', JString ''https://github.com/hashicorp/vault/blob/main/LICENSE''),
      (''url_project_website'', JString ''https://www.vaultproject.io''),
      (''url_release_notes'', JString ''https://www.vaultproject.io/docs/release-notes''),
      (''url_shasums'', JString ''https://releases.hashicorp.com/vault/1.2.3/vault_1.2.3_SHA256SUMS''),
      (''url_shasums_signatures'',
         JArray [JString ''https://releases.hashicorp.com/vault/1.2.3/vault_1.2.3_SHA256SUMS.sig'']),
      (''url_source_repository'', JString ''https://github.com/hashicorp/vault''),
      (''version'', JString ''1.2.3'')]"

section \<open>Properties\<close>

subsection \<open>Printing integers and escaping\<close>






















subsection \<open>Option encoding\<close>




lemma removeEmptyPort_empty: "removeEmptyPort [] = []"
  by (simp add: removeEmptyPort_def)

lemma test_parse_products:
  "url_Parse test_stdlib (URL (NewClient Map.empty) @ ''/products'') =
     Inr (test_URL ''https://api.releases.hashicorp.com/v1/products'' [])"
  by (simp add: test_stdlib_def NewClient_def Getenv_def)

lemma test_parse_releases:
  "url_Parse test_stdlib (URL (NewClient Map.empty) @ ''/releases/'' @ ''vault'') =
     Inr (test_URL ''https://api.releases.hashicorp.com/v1/releases/vault'' [])"
  by (simp add: test_stdlib_def NewClient_def Getenv_def)

lemma test_parse_metadata:
  "url_Parse test_stdlib (URL (NewClient Map.empty) @ ''/releases/'' @ ''vault'' @ ''/'' @ ''1.2.3'') =
     Inr (test_URL ''https://api.releases.hashicorp.com/v1/releases/vault/1.2.3'' [])"
  by (simp add: test_stdlib_def NewClient_def Getenv_def)

lemma test_parse_control:
  "url_Parse test_stdlib (URL (NewClient Map.empty) @ ''/releases/'' @ [CHR ''v'', CHR 0x0A]) =
     Inl (errorString ''net/url: invalid control character in URL'')"
  by (simp add: test_stdlib_def NewClient_def Getenv_def)

text \<open>
  Claim C1 says that a call of \<^verbatim>\<open>GetReleases\<close> with no options (\<^verbatim>\<open>nil\<close>)
  completes and gives a query with \<^verbatim>\<open>limit=10\<close> and \<^verbatim>\<open>after\<close> only. The code does
  not: whenever the URL parses, \<^verbatim>\<open>handleReleaseOptions\<close> reaches
  \<^verbatim>\<open>options.LicenseClass\<close> with a nil pointer and panics, so no query string is
  produced, and \<^verbatim>\<open>GetReleases\<close> panics with it before any request is built. (Only
  when the URL does not parse does the call return, with the parse error.)
\<close>

theorem handleReleaseOptions_nil_options_panics:
  "url_Parse L (URL c @ ''/releases/'' @ product) = Inr urlA \<Longrightarrow>
     handleReleaseOptions L now (URL c @ ''/releases/'' @ product) None = Panics nil_dereference
     \<and> GetReleases L T now c product None = (Panics nil_dereference, [])"
  by (simp add: GetReleases_def handleReleaseOptions_def Let_def)

theorem handleReleaseOptions_nil_options_panics_witness:
  "handleReleaseOptions test_stdlib ''2026-11-01T12:00:00Z''
      ''https://api.releases.hashicorp.com/v1/releases/vault'' None = Panics nil_dereference
   \<and> GetReleases test_stdlib (mock_transport \<lparr>StatusCode = 200, Body = Value (JArray [])\<rparr>)
      ''2026-11-01T12:00:00Z'' (NewClient Map.empty) ''vault'' None = (Panics nil_dereference, [])"
proof -
  have u: "URL (NewClient Map.empty) @ ''/releases/'' @ ''vault'' =
      ''https://api.releases.hashicorp.com/v1/releases/vault''"
    by (simp add: NewClient_def Getenv_def)
  from handleReleaseOptions_nil_options_panics [OF test_parse_releases,
      where now = "''2026-11-01T12:00:00Z''"
        and T = "mock_transport \<lparr>StatusCode = 200, Body = Value (JArray [])\<rparr>"]
  show ?thesis by (simp only: u)
qed














subsection \<open>The request executor\<close>

lemma sendRequest_transport_error:
  "T (HTTPClient c) (req\<lparr>Header := Header_Set (Header req) ''Accept'' ''application/json; charset=utf-8''\<rparr>) = Inl err
   \<Longrightarrow> sendRequest T c req dec v = (Inl err, [req\<lparr>Header := Header_Set (Header req) ''Accept'' ''application/json; charset=utf-8''\<rparr>])"
  by (simp add: sendRequest_def Let_def)

lemma json_Decode_errorResponse_object:
  "- (2 ^ 63) \<le> code \<Longrightarrow> code < 2 ^ 63 \<Longrightarrow>
   json_Decode decode_errorResponse (Value (JObject [(''code'', JInt code), (''message'', JString message)]))
     zero_errorResponse = Inr \<lparr>errorResponse_Status = code, errorResponse_Message = message\<rparr>"
  by (simp add: json_Decode_def decode_errorResponse_def decode_struct_def findField_def
      errorResponse_fnames_def set_errorResponse_field_def into_def decode_int_def
      decode_string_def zero_errorResponse_def)

text \<open>
  Claim C2: when the server answers with a status other than 200,
  \<^verbatim>\<open>sendRequest\<close> fails. If the body decodes into the error object, the error reads
  \<^verbatim>\<open>error: <message>; status code: <status>\<close> with the decoded message and the
  response's status; a body \<^verbatim>\<open>{"code": c, "message": m}\<close> decodes so, with message
  \<open>m\<close>. If the body does not decode (it is not JSON, say), the error reads
  \<^verbatim>\<open>unknown error, status code: <status>\<close>.
\<close>

theorem sendRequest_non_200:
  assumes "T (HTTPClient c) (req\<lparr>Header := Header_Set (Header req) ''Accept'' ''application/json; charset=utf-8''\<rparr>) = Inr res"
    and "StatusCode res \<noteq> 200"
  shows "(\<forall>errRes. json_Decode decode_errorResponse (Body res) zero_errorResponse = Inr errRes \<longrightarrow>
            fst (sendRequest T c req dec v) =
              Inl (errorString (''error: '' @ errorResponse_Message errRes
                     @ ''; status code: '' @ Itoa (StatusCode res))))
       \<and> (\<forall>err. json_Decode decode_errorResponse (Body res) zero_errorResponse = Inl err \<longrightarrow>
            fst (sendRequest T c req dec v) =
              Inl (errorString (''unknown error, status code: '' @ Itoa (StatusCode res))))
       \<and> (\<forall>code message.
            Body res = Value (JObject [(''code'', JInt code), (''message'', JString message)]) \<longrightarrow>
            - (2 ^ 63) \<le> code \<longrightarrow> code < 2 ^ 63 \<longrightarrow>
            fst (sendRequest T c req dec v) =
              Inl (errorString (''error: '' @ message @ ''; status code: '' @ Itoa (StatusCode res))))
       \<and> (\<forall>err. Body res = Malformed err \<longrightarrow>
            fst (sendRequest T c req dec v) =
              Inl (errorString (''unknown error, status code: '' @ Itoa (StatusCode res))))"
proof (intro conjI allI impI)
  fix errRes
  assume "json_Decode decode_errorResponse (Body res) zero_errorResponse = Inr errRes"
  with assms show "fst (sendRequest T c req dec v) =
      Inl (errorString (''error: '' @ errorResponse_Message errRes
             @ ''; status code: '' @ Itoa (StatusCode res)))"
    by (simp add: sendRequest_def Let_def)
next
  fix err
  assume "json_Decode decode_errorResponse (Body res) zero_errorResponse = Inl err"
  with assms show "fst (sendRequest T c req dec v) =
      Inl (errorString (''unknown error, status code: '' @ Itoa (StatusCode res)))"
    by (simp add: sendRequest_def Let_def)
next
  fix code :: int and message
  assume "Body res = Value (JObject [(''code'', JInt code), (''message'', JString message)])"
    and "- (2 ^ 63) \<le> code" and "code < 2 ^ 63"
  then have "json_Decode decode_errorResponse (Body res) zero_errorResponse =
      Inr \<lparr>errorResponse_Status = code, errorResponse_Message = message\<rparr>"
    by (simp add: json_Decode_errorResponse_object)
  with assms show "fst (sendRequest T c req dec v) =
      Inl (errorString (''error: '' @ message @ ''; status code: '' @ Itoa (StatusCode res)))"
    by (simp add: sendRequest_def Let_def)
next
  fix err
  assume "Body res = Malformed err"
  then have "json_Decode decode_errorResponse (Body res) zero_errorResponse = Inl err"
    by (simp add: json_Decode_def)
  with assms show "fst (sendRequest T c req dec v) =
      Inl (errorString (''unknown error, status code: '' @ Itoa (StatusCode res)))"
    by (simp add: sendRequest_def Let_def)
qed

theorem sendRequest_non_200_witness:
  "fst (sendRequest
         (mock_transport \<lparr>StatusCode = 500, Body = Value (JObject [(''code'', JInt 500), (''message'', JString ''internal error'')])\<rparr>)
         (NewClient Map.empty) (test_request ''https://api.releases.hashicorp.com/v1/products'' [])
         decode_ProductResponse [])
   = Inl (errorString ''error: internal error; status code: 500'')
   \<and> fst (sendRequest
         (mock_transport \<lparr>StatusCode = 500, Body = Malformed (errorString ''invalid character'')\<rparr>)
         (NewClient Map.empty) (test_request ''https://api.releases.hashicorp.com/v1/products'' [])
         decode_ProductResponse [])
   = Inl (errorString ''unknown error, status code: 500'')"
proof -
  let ?c = "NewClient Map.empty"
  let ?req = "test_request ''https://api.releases.hashicorp.com/v1/products'' []"
  let ?req' = "?req\<lparr>Header := Header_Set (Header ?req) ''Accept'' ''application/json; charset=utf-8''\<rparr>"
  let ?r1 = "\<lparr>StatusCode = 500, Body = Value (JObject [(''code'', JInt 500), (''message'', JString ''internal error'')])\<rparr>"
  let ?r2 = "\<lparr>StatusCode = 500, Body = Malformed (errorString ''invalid character'')\<rparr>"
  have a1: "mock_transport ?r1 (HTTPClient ?c) ?req' = Inr ?r1"
    and a2: "mock_transport ?r2 (HTTPClient ?c) ?req' = Inr ?r2"
    by (simp_all add: mock_transport_def)
  have n1: "StatusCode ?r1 \<noteq> 200" and n2: "StatusCode ?r2 \<noteq> 200" by simp_all
  have i: "Itoa 500 = ''500''" by (simp add: Itoa_def digits.simps)
  have b1: "Body ?r1 = Value (JObject [(''code'', JInt 500), (''message'', JString ''internal error'')])"
    and b2: "Body ?r2 = Malformed (errorString ''invalid character'')"
    by simp_all
  note t1 = sendRequest_non_200 [where T = "mock_transport ?r1" and c = ?c and req = ?req
      and res = ?r1 and dec = decode_ProductResponse and v = "[]", OF a1 n1]
  note t2 = sendRequest_non_200 [where T = "mock_transport ?r2" and c = ?c and req = ?req
      and res = ?r2 and dec = decode_ProductResponse and v = "[]", OF a2 n2]
  have "fst (sendRequest (mock_transport ?r1) ?c ?req decode_ProductResponse [])
      = Inl (errorString ''error: internal error; status code: 500'')"
    using t1 [THEN conjunct2, THEN conjunct2, THEN conjunct1, rule_format, OF b1] by (simp add: i)
  moreover have "fst (sendRequest (mock_transport ?r2) ?c ?req decode_ProductResponse [])
      = Inl (errorString ''unknown error, status code: 500'')"
    using t2 [THEN conjunct2, THEN conjunct2, THEN conjunct2, rule_format, OF b2] by (simp add: i)
  ultimately show ?thesis by (rule conjI)
qed

text \<open>
  Claim C5: \<^verbatim>\<open>sendRequest\<close> succeeds only on status 200. On a 200 response whose
  body decodes into the destination it returns the decoded value; on a 200 response
  whose body does not decode it returns the error
  \<^verbatim>\<open>error decoding response body: <text of the decoder's error>\<close>.
\<close>

theorem sendRequest_200:
  assumes "T (HTTPClient c) (req\<lparr>Header := Header_Set (Header req) ''Accept'' ''application/json; charset=utf-8''\<rparr>) = Inr res"
  shows "(\<forall>v'. fst (sendRequest T c req dec v) = Inr v' \<longrightarrow>
            StatusCode res = 200 \<and> json_Decode dec (Body res) v = Inr v')
       \<and> (StatusCode res = 200 \<longrightarrow>
            (\<forall>v'. json_Decode dec (Body res) v = Inr v' \<longrightarrow>
               fst (sendRequest T c req dec v) = Inr v')
          \<and> (\<forall>err. json_Decode dec (Body res) v = Inl err \<longrightarrow>
               fst (sendRequest T c req dec v) =
                 Inl (errorString (''error decoding response body: '' @ Error err))))"
  using assms by (auto simp: sendRequest_def Let_def split: sum.splits if_splits)

theorem sendRequest_200_witness:
  "fst (sendRequest
         (mock_transport \<lparr>StatusCode = 200, Body = Value (JArray [JString ''terraform'', JString ''vault''])\<rparr>)
         (NewClient Map.empty) (test_request ''https://api.releases.hashicorp.com/v1/products'' [])
         decode_ProductResponse [])
   = Inr [''terraform'', ''vault'']
   \<and> fst (sendRequest
         (mock_transport \<lparr>StatusCode = 200, Body = Malformed (errorString ''unexpected EOF'')\<rparr>)
         (NewClient Map.empty) (test_request ''https://api.releases.hashicorp.com/v1/products'' [])
         decode_ProductResponse [])
   = Inl (errorString ''error decoding response body: unexpected EOF'')"
proof -
  let ?c = "NewClient Map.empty"
  let ?req = "test_request ''https://api.releases.hashicorp.com/v1/products'' []"
  let ?req' = "?req\<lparr>Header := Header_Set (Header ?req) ''Accept'' ''application/json; charset=utf-8''\<rparr>"
  let ?r1 = "\<lparr>StatusCode = 200, Body = Value (JArray [JString ''terraform'', JString ''vault''])\<rparr>"
  let ?r2 = "\<lparr>StatusCode = 200, Body = Malformed (errorString ''unexpected EOF'')\<rparr>"
  have a1: "mock_transport ?r1 (HTTPClient ?c) ?req' = Inr ?r1"
    and a2: "mock_transport ?r2 (HTTPClient ?c) ?req' = Inr ?r2"
    by (simp_all add: mock_transport_def)
  have d1: "json_Decode decode_ProductResponse (Body ?r1) [] = Inr [''terraform'', ''vault'']"
    by (simp add: json_Decode_def decode_ProductResponse_def decode_slice_def decode_string_def)
  have d2: "json_Decode decode_ProductResponse (Body ?r2) [] = Inl (errorString ''unexpected EOF'')"
    by (simp add: json_Decode_def)
  have s1: "StatusCode ?r1 = 200" and s2: "StatusCode ?r2 = 200" by simp_all
  note t1 = sendRequest_200 [where T = "mock_transport ?r1" and c = ?c and req = ?req
      and res = ?r1 and dec = decode_ProductResponse and v = "[]", OF a1]
  note t2 = sendRequest_200 [where T = "mock_transport ?r2" and c = ?c and req = ?req
      and res = ?r2 and dec = decode_ProductResponse and v = "[]", OF a2]
  have "fst (sendRequest (mock_transport ?r1) ?c ?req decode_ProductResponse [])
      = Inr [''terraform'', ''vault'']"
    by (rule t1 [THEN conjunct2, rule_format, OF s1, THEN conjunct1, rule_format, OF d1])
  moreover have "fst (sendRequest (mock_transport ?r2) ?c ?req decode_ProductResponse [])
      = Inl (errorString ''error decoding response body: unexpected EOF'')"
    using t2 [THEN conjunct2, rule_format, OF s2, THEN conjunct2, rule_format, OF d2] by simp
  ultimately show ?thesis by (rule conjI)
qed

subsection \<open>The client\<close>

text \<open>
  Claim C6: the client's base URL is the value of \<^verbatim>\<open>RELEASES_URL\<close> when the
  variable is set to a non-empty string and \<^verbatim>\<open>https://api.releases.hashicorp.com/v1\<close>
  when it is not set or empty, and the HTTP client's timeout is one minute
  (60,000,000,000 nanoseconds).
\<close>

theorem NewClient_base_URL:
  "(env ''RELEASES_URL'' = None \<or> env ''RELEASES_URL'' = Some [] \<longrightarrow>
      URL (NewClient env) = ''https://api.releases.hashicorp.com/v1'')
   \<and> (\<forall>url. env ''RELEASES_URL'' = Some url \<longrightarrow> url \<noteq> [] \<longrightarrow> URL (NewClient env) = url)
   \<and> Timeout (HTTPClient (NewClient env)) = 60000000000"
  by (auto simp: NewClient_def Getenv_def Minute_def Let_def)

theorem NewClient_base_URL_witness:
  "URL (NewClient Map.empty) = ''https://api.releases.hashicorp.com/v1''
   \<and> URL (NewClient [''RELEASES_URL'' \<mapsto> []]) = ''https://api.releases.hashicorp.com/v1''
   \<and> URL (NewClient [''RELEASES_URL'' \<mapsto> ''http://localhost:8080/v1'']) = ''http://localhost:8080/v1''"
  using NewClient_base_URL [of Map.empty] NewClient_base_URL [of "[''RELEASES_URL'' \<mapsto> []]"]
    NewClient_base_URL [of "[''RELEASES_URL'' \<mapsto> ''http://localhost:8080/v1'']"]
  by simp

subsection \<open>The endpoints\<close>

lemma decode_elems_strings:
  "decode_elems [] decode_string ctx (map JString xs) saved ys = Inr (saved, xs)"
  by (induction xs arbitrary: ys) (simp_all add: decode_string_def)

lemma json_Decode_ProductResponse:
  "json_Decode decode_ProductResponse (Value (JArray (map JString names))) v = Inr names"
  by (simp add: json_Decode_def decode_ProductResponse_def decode_slice_def decode_elems_strings)

text \<open>
  Claim C9: \<^verbatim>\<open>GetProducts\<close> builds a GET request for \<^verbatim>\<open>{baseURL}/products\<close>. When
  that URL parses, exactly this request (with the JSON content type and the accept
  header) is handed to the transport, and on a 200 response whose body is a JSON array
  of strings the result is exactly the list of these strings. When it does not parse,
  the parse error is returned and nothing is sent.
\<close>

theorem GetProducts_returns_list:
  "(\<forall>err. url_Parse L (URL c @ ''/products'') = Inl err \<longrightarrow> GetProducts L T c = (Inl err, []))
   \<and> (\<forall>u. url_Parse L (URL c @ ''/products'') = Inr u \<longrightarrow>
        snd (GetProducts L T c) =
          [\<lparr>Method = ''GET'', Request_URL = u\<lparr>Host := removeEmptyPort (Host u)\<rparr>,
            Header = [''Content-Type'' \<mapsto> [''application/json; charset=utf-8''],
                      ''Accept'' \<mapsto> [''application/json; charset=utf-8'']],
            Request_Host = removeEmptyPort (Host u)\<rparr>]
      \<and> (\<forall>names.
            T (HTTPClient c)
              \<lparr>Method = ''GET'', Request_URL = u\<lparr>Host := removeEmptyPort (Host u)\<rparr>,
               Header = [''Content-Type'' \<mapsto> [''application/json; charset=utf-8''],
                         ''Accept'' \<mapsto> [''application/json; charset=utf-8'']],
               Request_Host = removeEmptyPort (Host u)\<rparr>
              = Inr \<lparr>StatusCode = 200, Body = Value (JArray (map JString names))\<rparr> \<longrightarrow>
            fst (GetProducts L T c) = Inr names))"
proof (intro conjI allI impI)
  fix err
  assume "url_Parse L (URL c @ ''/products'') = Inl err"
  then show "GetProducts L T c = (Inl err, [])"
    by (simp add: GetProducts_def NewRequest_def)
next
  fix u
  assume "url_Parse L (URL c @ ''/products'') = Inr u"
  then show "snd (GetProducts L T c) =
          [\<lparr>Method = ''GET'', Request_URL = u\<lparr>Host := removeEmptyPort (Host u)\<rparr>,
            Header = [''Content-Type'' \<mapsto> [''application/json; charset=utf-8''],
                      ''Accept'' \<mapsto> [''application/json; charset=utf-8'']],
            Request_Host = removeEmptyPort (Host u)\<rparr>]"
    by (simp add: GetProducts_def NewRequest_def setJSONHeader_def Header_Set_def sendRequest_def
        Let_def split: sum.splits)
next
  fix u names
  assume "url_Parse L (URL c @ ''/products'') = Inr u"
    and "T (HTTPClient c)
              \<lparr>Method = ''GET'', Request_URL = u\<lparr>Host := removeEmptyPort (Host u)\<rparr>,
               Header = [''Content-Type'' \<mapsto> [''application/json; charset=utf-8''],
                         ''Accept'' \<mapsto> [''application/json; charset=utf-8'']],
               Request_Host = removeEmptyPort (Host u)\<rparr>
              = Inr \<lparr>StatusCode = 200, Body = Value (JArray (map JString names))\<rparr>"
  then show "fst (GetProducts L T c) = Inr names"
    by (simp add: GetProducts_def NewRequest_def setJSONHeader_def Header_Set_def sendRequest_def
        Let_def json_Decode_ProductResponse)
qed

theorem GetProducts_returns_list_witness:
  "GetProducts test_stdlib
     (mock_transport \<lparr>StatusCode = 200, Body = Value (JArray [JString ''terraform'', JString ''vault''])\<rparr>)
     (NewClient Map.empty)
   = (Inr [''terraform'', ''vault''],
      [\<lparr>Method = ''GET'', Request_URL = test_URL ''https://api.releases.hashicorp.com/v1/products'' [],
        Header = [''Content-Type'' \<mapsto> [''application/json; charset=utf-8''],
                  ''Accept'' \<mapsto> [''application/json; charset=utf-8'']],
        Request_Host = []\<rparr>])"
proof -
  let ?res = "\<lparr>StatusCode = 200, Body = Value (JArray (map JString [''terraform'', ''vault'']))\<rparr>"
  let ?u = "test_URL ''https://api.releases.hashicorp.com/v1/products'' []"
  have t: "mock_transport ?res (HTTPClient (NewClient Map.empty))
       \<lparr>Method = ''GET'', Request_URL = ?u\<lparr>Host := removeEmptyPort (Host ?u)\<rparr>,
        Header = [''Content-Type'' \<mapsto> [''application/json; charset=utf-8''],
                  ''Accept'' \<mapsto> [''application/json; charset=utf-8'']],
        Request_Host = removeEmptyPort (Host ?u)\<rparr> = Inr ?res"
    by (simp add: mock_transport_def)
  have h: "Host ?u = []" "?u\<lparr>Host := []\<rparr> = ?u" by (simp_all add: test_URL_def)
  note g = GetProducts_returns_list [where L = test_stdlib and T = "mock_transport ?res"
      and c = "NewClient Map.empty", THEN conjunct2, rule_format, OF test_parse_products]
  from g [THEN conjunct1] g [THEN conjunct2, rule_format, OF t]
  show ?thesis by (simp add: h removeEmptyPort_empty prod_eq_iff)
qed

lemma set_Release_field_other:
  "f \<noteq> ''version'' \<Longrightarrow> set_Release_field L f ctx x st = Inr st' \<Longrightarrow>
   Version (snd st') = Version (snd st)"
  unfolding set_Release_field_def into_def
  by (auto split: if_splits sum.splits prod.splits)

lemma set_Release_field_version:
  "set_Release_field L ''version'' ctx (JString ver) st = Inr st' \<Longrightarrow> Version (snd st') = ver"
  by (auto simp: set_Release_field_def into_def decode_string_def)

lemma decode_members_Version:
  assumes "decode_members sn Release_fnames (set_Release_field L) ctx kvs st = Inr st'"
    and "\<forall>(k, x)\<in>set kvs. findField Release_fnames k = Some ''version'' \<longrightarrow> x = JString ver"
  shows "Version (snd st') =
    (if \<exists>(k, x)\<in>set kvs. findField Release_fnames k = Some ''version'' then ver
     else Version (snd st))"
  using assms
proof (induction kvs arbitrary: st)
  case Nil
  then show ?case by simp
next
  case (Cons kv kvs)
  obtain k x where kv: "kv = (k, x)" by (cases kv)
  show ?case
  proof (cases "findField Release_fnames k")
    case None
    with Cons kv show ?thesis by simp
  next
    case (Some f)
    with Cons.prems kv obtain st1 where
      s1: "set_Release_field L f \<lparr>Struct = sn, FieldStack = FieldStack ctx @ [f]\<rparr> x st = Inr st1" and
      s2: "decode_members sn Release_fnames (set_Release_field L) ctx kvs st1 = Inr st'"
      by (auto split: sum.splits)
    have rest: "\<forall>(k, x)\<in>set kvs. findField Release_fnames k = Some ''version'' \<longrightarrow> x = JString ver"
      using Cons.prems(2) by simp
    note ih = Cons.IH [OF s2 rest]
    show ?thesis
    proof (cases "f = ''version''")
      case True
      with Some Cons.prems(2) kv have "x = JString ver" by simp
      with s1 True have "Version (snd st1) = ver" by (simp add: set_Release_field_version)
      with ih Some True kv show ?thesis by simp
    next
      case False
      from False s1 have "Version (snd st1) = Version (snd st)" by (rule set_Release_field_other)
      with ih Some False kv show ?thesis by simp
    qed
  qed
qed

text \<open>
  Claim C8: for every product and version, \<^verbatim>\<open>GetReleaseMetadata\<close> builds a GET
  request for \<^verbatim>\<open>{baseURL}/releases/{product}/{version}\<close>, the two strings put in as
  they are. When that URL parses, exactly this request is handed to the transport;
  when it does not, the parse error is returned and nothing is sent. If the answer
  is a 200 response whose body is an object that decodes, with a member
  \<^verbatim>\<open>"version": v\<close> (and no other member for that field with another value), the
  returned release has \<open>v\<close> as its \<^verbatim>\<open>Version\<close>.
\<close>

theorem GetReleaseMetadata_request_and_version:
  "(\<forall>err. url_Parse L (URL c @ ''/releases/'' @ product @ ''/'' @ version) = Inl err \<longrightarrow>
       GetReleaseMetadata L T c product version = (Inl err, []))
   \<and> (\<forall>u. url_Parse L (URL c @ ''/releases/'' @ product @ ''/'' @ version) = Inr u \<longrightarrow>
       snd (GetReleaseMetadata L T c product version) =
         [\<lparr>Method = ''GET'', Request_URL = u\<lparr>Host := removeEmptyPort (Host u)\<rparr>,
           Header = [''Content-Type'' \<mapsto> [''application/json; charset=utf-8''],
                     ''Accept'' \<mapsto> [''application/json; charset=utf-8'']],
           Request_Host = removeEmptyPort (Host u)\<rparr>]
     \<and> (\<forall>kvs ver r.
          T (HTTPClient c)
            \<lparr>Method = ''GET'', Request_URL = u\<lparr>Host := removeEmptyPort (Host u)\<rparr>,
             Header = [''Content-Type'' \<mapsto> [''application/json; charset=utf-8''],
                       ''Accept'' \<mapsto> [''application/json; charset=utf-8'']],
             Request_Host = removeEmptyPort (Host u)\<rparr>
            = Inr \<lparr>StatusCode = 200, Body = Value (JObject kvs)\<rparr> \<longrightarrow>
          (''version'', JString ver) \<in> set kvs \<longrightarrow>
          (\<forall>(k, x)\<in>set kvs. findField Release_fnames k = Some ''version'' \<longrightarrow> x = JString ver) \<longrightarrow>
          json_Decode (decode_ReleaseMetadataResponse L) (Value (JObject kvs)) zero_Release = Inr r \<longrightarrow>
          fst (GetReleaseMetadata L T c product version) = Inr r \<and> Version r = ver))"
proof (intro conjI allI impI)
  fix err
  assume "url_Parse L (URL c @ ''/releases/'' @ product @ ''/'' @ version) = Inl err"
  then show "GetReleaseMetadata L T c product version = (Inl err, [])"
    by (simp add: GetReleaseMetadata_def NewRequest_def)
next
  fix u
  assume "url_Parse L (URL c @ ''/releases/'' @ product @ ''/'' @ version) = Inr u"
  then show "snd (GetReleaseMetadata L T c product version) =
         [\<lparr>Method = ''GET'', Request_URL = u\<lparr>Host := removeEmptyPort (Host u)\<rparr>,
           Header = [''Content-Type'' \<mapsto> [''application/json; charset=utf-8''],
                     ''Accept'' \<mapsto> [''application/json; charset=utf-8'']],
           Request_Host = removeEmptyPort (Host u)\<rparr>]"
    by (simp add: GetReleaseMetadata_def NewRequest_def setJSONHeader_def Header_Set_def
        sendRequest_def Let_def split: sum.splits)
next
  fix u kvs ver r
  assume p: "url_Parse L (URL c @ ''/releases/'' @ product @ ''/'' @ version) = Inr u"
    and t: "T (HTTPClient c)
            \<lparr>Method = ''GET'', Request_URL = u\<lparr>Host := removeEmptyPort (Host u)\<rparr>,
             Header = [''Content-Type'' \<mapsto> [''application/json; charset=utf-8''],
                       ''Accept'' \<mapsto> [''application/json; charset=utf-8'']],
             Request_Host = removeEmptyPort (Host u)\<rparr>
            = Inr \<lparr>StatusCode = 200, Body = Value (JObject kvs)\<rparr>"
    and mem: "(''version'', JString ver) \<in> set kvs"
    and only: "\<forall>(k, x)\<in>set kvs. findField Release_fnames k = Some ''version'' \<longrightarrow> x = JString ver"
    and dec: "json_Decode (decode_ReleaseMetadataResponse L) (Value (JObject kvs)) zero_Release = Inr r"
  from p t dec show "fst (GetReleaseMetadata L T c product version) = Inr r"
    by (simp add: GetReleaseMetadata_def NewRequest_def setJSONHeader_def Header_Set_def
        sendRequest_def Let_def)
  from dec obtain st' where
    m: "decode_members ''ReleaseMetadataResponse'' Release_fnames (set_Release_field L)
          no_errorContext kvs (None, zero_Release) = Inr st'"
    and r: "snd st' = r"
    by (auto simp: json_Decode_def decode_ReleaseMetadataResponse_def decode_Release_def
        decode_struct_def split: sum.splits option.splits)
  have f: "findField Release_fnames ''version'' = Some ''version''"
    by (simp add: findField_def Release_fnames_def)
  from mem f have ex: "\<exists>(k, x)\<in>set kvs. findField Release_fnames k = Some ''version''"
    by (intro bexI [of _ "(''version'', JString ver)"]) simp_all
  from decode_members_Version [OF m only] ex r show "Version r = ver" by simp
qed

theorem GetReleaseMetadata_request_and_version_witness:
  "\<exists>r. fst (GetReleaseMetadata test_stdlib
           (mock_transport \<lparr>StatusCode = 200,
              Body = Value (JObject [(''name'', JString ''vault''), (''version'', JString ''1.2.3'')])\<rparr>)
           (NewClient Map.empty) ''vault'' ''1.2.3'') = Inr r
     \<and> Version r = ''1.2.3''"
proof -
  let ?kvs = "[(''name'', JString ''vault''), (''version'', JString ''1.2.3'')]"
  let ?res = "\<lparr>StatusCode = 200, Body = Value (JObject ?kvs)\<rparr>"
  let ?u = "test_URL ''https://api.releases.hashicorp.com/v1/releases/vault/1.2.3'' []"
  let ?r = "zero_Release\<lparr>Name := ''vault'', Version := ''1.2.3''\<rparr>"
  have t: "mock_transport ?res (HTTPClient (NewClient Map.empty))
       \<lparr>Method = ''GET'', Request_URL = ?u\<lparr>Host := removeEmptyPort (Host ?u)\<rparr>,
        Header = [''Content-Type'' \<mapsto> [''application/json; charset=utf-8''],
                  ''Accept'' \<mapsto> [''application/json; charset=utf-8'']],
        Request_Host = removeEmptyPort (Host ?u)\<rparr> = Inr ?res"
    by (simp add: mock_transport_def)
  have m: "(''version'', JString ''1.2.3'') \<in> set ?kvs" by simp
  have only: "case kv of (k, x) \<Rightarrow> findField Release_fnames k = Some ''version'' \<longrightarrow> x = JString ''1.2.3''"
    if "kv \<in> set ?kvs" for kv
    using that by (auto simp: findField_def Release_fnames_def)
  have d: "json_Decode (decode_ReleaseMetadataResponse test_stdlib) (Value (JObject ?kvs)) zero_Release = Inr ?r"
    by (simp add: json_Decode_def decode_ReleaseMetadataResponse_def decode_Release_def
        decode_struct_def findField_def Release_fnames_def set_Release_field_def into_def
        decode_string_def)
  from GetReleaseMetadata_request_and_version [where T = "mock_transport ?res"
      and L = test_stdlib and c = "NewClient Map.empty" and product = "''vault''"
      and version = "''1.2.3''",
      THEN conjunct2, rule_format, OF test_parse_metadata, THEN conjunct2, rule_format, OF t m only d]
  show ?thesis by blast
qed

text \<open>
  Claim C7 says that \<^verbatim>\<open>GetReleases\<close> issues its GET request for every product and
  every options value, and returns the error of a URL that cannot be built before any
  network call. The second half holds: an error of \<^verbatim>\<open>url.Parse\<close> or of
  \<^verbatim>\<open>http.NewRequest\<close> is returned with no request sent. So does the first half for
  options that are present: the request sent is the GET request for the URL that
  \<^verbatim>\<open>handleReleaseOptions\<close> returns. For \<^verbatim>\<open>nil\<close> options and a URL that parses,
  the call panics in \<^verbatim>\<open>handleReleaseOptions\<close> (the defect of C1) and no request is
  sent.
\<close>

theorem GetReleases_request:
  "(\<forall>err. url_Parse L (URL c @ ''/releases/'' @ product) = Inl err \<longrightarrow>
       GetReleases L T now c product options = (Returns (Inl err), []))
   \<and> (\<forall>urlA. url_Parse L (URL c @ ''/releases/'' @ product) = Inr urlA \<longrightarrow> options = None \<longrightarrow>
       GetReleases L T now c product options = (Panics nil_dereference, []))
   \<and> (\<forall>fullURL. handleReleaseOptions L now (URL c @ ''/releases/'' @ product) options
                  = Returns (Inr fullURL) \<longrightarrow>
         (\<forall>err. url_Parse L fullURL = Inl err \<longrightarrow>
            GetReleases L T now c product options = (Returns (Inl err), []))
       \<and> (\<forall>u. url_Parse L fullURL = Inr u \<longrightarrow>
            snd (GetReleases L T now c product options) =
              [\<lparr>Method = ''GET'', Request_URL = u\<lparr>Host := removeEmptyPort (Host u)\<rparr>,
                Header = [''Content-Type'' \<mapsto> [''application/json; charset=utf-8''],
                          ''Accept'' \<mapsto> [''application/json; charset=utf-8'']],
                Request_Host = removeEmptyPort (Host u)\<rparr>]))"
proof (intro conjI allI impI)
  fix err
  assume "url_Parse L (URL c @ ''/releases/'' @ product) = Inl err"
  then show "GetReleases L T now c product options = (Returns (Inl err), [])"
    by (simp add: GetReleases_def handleReleaseOptions_def Let_def)
next
  fix urlA
  assume "url_Parse L (URL c @ ''/releases/'' @ product) = Inr urlA" and "options = None"
  then show "GetReleases L T now c product options = (Panics nil_dereference, [])"
    by (simp add: GetReleases_def handleReleaseOptions_def Let_def)
next
  fix fullURL err
  assume "handleReleaseOptions L now (URL c @ ''/releases/'' @ product) options = Returns (Inr fullURL)"
    and "url_Parse L fullURL = Inl err"
  then show "GetReleases L T now c product options = (Returns (Inl err), [])"
    by (simp add: GetReleases_def NewRequest_def Let_def)
next
  fix fullURL u
  assume "handleReleaseOptions L now (URL c @ ''/releases/'' @ product) options = Returns (Inr fullURL)"
    and "url_Parse L fullURL = Inr u"
  then show "snd (GetReleases L T now c product options) =
              [\<lparr>Method = ''GET'', Request_URL = u\<lparr>Host := removeEmptyPort (Host u)\<rparr>,
                Header = [''Content-Type'' \<mapsto> [''application/json; charset=utf-8''],
                          ''Accept'' \<mapsto> [''application/json; charset=utf-8'']],
                Request_Host = removeEmptyPort (Host u)\<rparr>]"
    by (simp add: GetReleases_def NewRequest_def setJSONHeader_def Header_Set_def sendRequest_def
        Let_def split: sum.splits prod.splits)
qed

theorem GetReleases_request_witness:
  "GetReleases test_stdlib (mock_transport \<lparr>StatusCode = 200, Body = Value (JArray [])\<rparr>)
      ''2026-11-01T12:00:00Z'' (NewClient Map.empty) ''vault'' None
     = (Panics nil_dereference, [])
   \<and> GetReleases test_stdlib (mock_transport \<lparr>StatusCode = 200, Body = Value (JArray [])\<rparr>)
      ''2026-11-01T12:00:00Z'' (NewClient Map.empty) [CHR ''v'', CHR 0x0A] None
     = (Returns (Inl (errorString ''net/url: invalid control character in URL'')), [])"
proof -
  let ?T = "mock_transport \<lparr>StatusCode = 200, Body = Value (JArray [])\<rparr>"
  note g = GetReleases_request [where L = test_stdlib and T = ?T and now = "''2026-11-01T12:00:00Z''"
      and c = "NewClient Map.empty" and options = None]
  have "GetReleases test_stdlib ?T ''2026-11-01T12:00:00Z'' (NewClient Map.empty) ''vault'' None
      = (Panics nil_dereference, [])"
    by (rule g [where product = "''vault''", THEN conjunct2, THEN conjunct1, rule_format,
          OF test_parse_releases refl])
  moreover have "GetReleases test_stdlib ?T ''2026-11-01T12:00:00Z'' (NewClient Map.empty)
      [CHR ''v'', CHR 0x0A] None
      = (Returns (Inl (errorString ''net/url: invalid control character in URL'')), [])"
    by (rule g [where product = "[CHR ''v'', CHR 0x0A]", THEN conjunct1, rule_format,
          OF test_parse_control])
  ultimately show ?thesis by (rule conjI)
qed

lemma json_Decode_vault_release:
  "json_Decode (decode_ReleaseMetadataResponse L) (Value vault_release_json) zero_Release =
     Inr \<lparr>Builds = [\<lparr>Architecture = ''amd64'', OperatingSystem = ''linux'', Unsupported = False,
                     Build_URL = ''https://releases.hashicorp.com/vault/1.2.3/vault_1.2.3_linux_amd64.zip''\<rparr>],
          DockerNameTag = ''vault:1.2.3'', IsPrerelease = False, Release_LicenseClass = ''oss'',
          Name = ''vault'',
          Status = \<lparr>Status_Message = ''released'', Status_State = ''supported'',
                     Status_TimestampUpdated = 0\<rparr>,
          TimestampCreated = ''2019-09-09T00:00:00Z'', TimestampUpdated = ''2019-09-10T00:00:00Z'',
          BlogpostURL = ''https://www.hashicorp.com/blog/vault-1-2'',
          ChangelogURL = ''https://github.com/hashicorp/vault/blob/main/CHANGELOG.md'',
          DockerhubURL = ''https://hub.docker.com/_/vault'',
          AmazonECRURL = ''https://gallery.ecr.aws/hashicorp/vault'',
          LicenseURL = ''https://github.com/hashicorp/vault/blob/main/LICENSE'',
          WebsiteURL = ''https://www.vaultproject.io'',
          ReleaseNotesURL = ''https://www.vaultproject.io/docs/release-notes'',
          ShaSumsURL = ''https://releases.hashicorp.com/vault/1.2.3/vault_1.2.3_SHA256SUMS'',
          ShaSumsSignaturesURL = [''https://releases.hashicorp.com/vault/1.2.3/vault_1.2.3_SHA256SUMS.sig''],
          SourceRepositoryURL = [], Version = ''1.2.3''\<rparr>"
  by (simp add: json_Decode_def vault_release_json_def decode_ReleaseMetadataResponse_def
      decode_Release_def decode_struct_def findField_def Release_fnames_def set_Release_field_def
      into_def decode_string_def decode_bool_def decode_slice_def decode_Build_def Build_fnames_def
      set_Build_field_def decode_Status_def Status_fnames_def set_Status_field_def upper_def
      zero_Release_def zero_Build_def zero_Status_def)

text \<open>
  Claim C3 says that every field of the decoded release equals the value in the JSON
  body, the source repository and the status timestamp included. The code does not
  do this for two keys. The tag of \<^verbatim>\<open>SourceRepositoryURL\<close> is misspelt
  (\<^verbatim>\<open>url_sorce_repository\<close>), so the key \<^verbatim>\<open>url_source_repository\<close> matches no field
  and is skipped; the fields of \<^verbatim>\<open>Status\<close> have no tags, so \<^verbatim>\<open>message\<close> and
  \<^verbatim>\<open>state\<close> are matched by case folding, but \<^verbatim>\<open>timestamp_updated\<close> does not fold
  to \<^verbatim>\<open>TimestampUpdated\<close> and is skipped too. On the documented release below,
  every other field is decoded as given, the source repository is empty and the
  status timestamp is the zero time.
\<close>

theorem GetReleaseMetadata_drops_source_repository:
  "fst (GetReleaseMetadata test_stdlib
          (mock_transport \<lparr>StatusCode = 200, Body = Value vault_release_json\<rparr>)
          (NewClient Map.empty) ''vault'' ''1.2.3'') =
     Inr \<lparr>Builds = [\<lparr>Architecture = ''amd64'', OperatingSystem = ''linux'', Unsupported = False,
                     Build_URL = ''https://releases.hashicorp.com/vault/1.2.3/vault_1.2.3_linux_amd64.zip''\<rparr>],
          DockerNameTag = ''vault:1.2.3'', IsPrerelease = False, Release_LicenseClass = ''oss'',
          Name = ''vault'',
          Status = \<lparr>Status_Message = ''released'', Status_State = ''supported'',
                     Status_TimestampUpdated = 0\<rparr>,
          TimestampCreated = ''2019-09-09T00:00:00Z'', TimestampUpdated = ''2019-09-10T00:00:00Z'',
          BlogpostURL = ''https://www.hashicorp.com/blog/vault-1-2'',
          ChangelogURL = ''https://github.com/hashicorp/vault/blob/main/CHANGELOG.md'',
          DockerhubURL = ''https://hub.docker.com/_/vault'',
          AmazonECRURL = ''https://gallery.ecr.aws/hashicorp/vault'',
          LicenseURL = ''https://github.com/hashicorp/vault/blob/main/LICENSE'',
          WebsiteURL = ''https://www.vaultproject.io'',
          ReleaseNotesURL = ''https://www.vaultproject.io/docs/release-notes'',
          ShaSumsURL = ''https://releases.hashicorp.com/vault/1.2.3/vault_1.2.3_SHA256SUMS'',
          ShaSumsSignaturesURL = [''https://releases.hashicorp.com/vault/1.2.3/vault_1.2.3_SHA256SUMS.sig''],
          SourceRepositoryURL = [], Version = ''1.2.3''\<rparr>"
  by (simp add: GetReleaseMetadata_def NewRequest_def NewClient_def Getenv_def test_stdlib_def
      mock_transport_def sendRequest_def Let_def json_Decode_vault_release)

end
